theory Spec2Isabelle
  imports Main
begin

section \<open>JavaScript values used by the components\<close>

text \<open>
  Strings are \<open>string\<close>; an optional property (\<^verbatim>\<open>assigneeId?: string\<close>) is a
  \<open>string option\<close>, \<open>None\<close> standing for \<^verbatim>\<open>undefined\<close>. The components test
  such values for truthiness (\<^verbatim>\<open>a || b\<close>, \<^verbatim>\<open>if (projectId)\<close>): a string is truthy
  when it is not empty, \<^verbatim>\<open>undefined\<close> is falsy. No property below depends on which
  characters a string holds, except \<open>trim\<close>, which reads the character codes up to 255.
\<close>

definition truthy :: "string option \<Rightarrow> bool" where
  "truthy v = (case v of None \<Rightarrow> False | Some s \<Rightarrow> s \<noteq> [])"

text \<open>\<^verbatim>\<open>a || b\<close>: the left operand when it is truthy, the right operand otherwise.\<close>

definition js_or :: "string option \<Rightarrow> string option \<Rightarrow> string option" where
  "js_or a b = (if truthy a then a else b)"

text \<open>\<^verbatim>\<open>a || 'literal'\<close>, whose value is always a string.\<close>

definition or_default :: "string option \<Rightarrow> string \<Rightarrow> string" where
  "or_default a d = (case a of None \<Rightarrow> d | Some s \<Rightarrow> if s \<noteq> [] then s else d)"

text \<open>
  A \<^verbatim>\<open>Date\<close> object holds a time value (milliseconds since the epoch) or is the
  Invalid Date. A project's date property is typed \<^verbatim>\<open>string | Date\<close>.
\<close>

datatype js_date = Date int | InvalidDate

datatype date_field = DateString string | DateObject js_date

text \<open>
  \<^verbatim>\<open>new Date(x)\<close>: a copy of a \<^verbatim>\<open>Date\<close>, the parse of a string. The parser of the
  JavaScript engine is a parameter.
\<close>

definition new_Date :: "(string \<Rightarrow> js_date) \<Rightarrow> date_field \<Rightarrow> js_date" where
  "new_Date parse x = (case x of DateString s \<Rightarrow> parse s | DateObject d \<Rightarrow> d)"

text \<open>Truthiness of a \<^verbatim>\<open>string | Date | undefined\<close>: every object is truthy.\<close>

definition truthy_date :: "date_field option \<Rightarrow> bool" where
  "truthy_date v =
     (case v of None \<Rightarrow> False | Some (DateString s) \<Rightarrow> s \<noteq> [] | Some (DateObject d) \<Rightarrow> True)"

datatype project_status = NotStarted | InProgress | Complete

section \<open>The project modals\<close>

subsection \<open>Data\<close>

text \<open>
  \<^verbatim>\<open>interface Project\<close>. The properties \<^verbatim>\<open>id\<close> and \<^verbatim>\<open>_id\<close> are the fields
  \<open>proj_id\<close> and \<open>proj_oid\<close>; the other fields carry the property's name after the
  prefix \<open>proj_\<close>.
\<close>

record project =
  proj_id :: "string option"
  proj_oid :: "string option"
  proj_name :: string
  proj_description :: "string option"
  proj_clientId :: string
  proj_status :: "project_status option"
  proj_dueDate :: "date_field option"
  proj_startDate :: "date_field option"
  proj_assigneeId :: "string option"
  proj_teamMemberIds :: "string list option"
  proj_repeating :: "bool option"
  proj_isRecurring :: "bool option"
  proj_templateId :: "string option"

text \<open>
  The values held by the form, before and after \<open>projectSchema\<close> has parsed them
  (\<^verbatim>\<open>ProjectFormValues\<close>). A property the schema fills with a default is optional
  here; \<open>None\<close> in \<open>fv_teamMemberIds\<close> is any value that is not an array.
\<close>

record form_values =
  fv_name :: string
  fv_description :: "string option"
  fv_clientId :: string
  fv_assigneeId :: "string option"
  fv_teamMemberIds :: "string list option"
  fv_isRecurring :: "bool option"
  fv_startDate :: "js_date option"
  fv_templateId :: "string option"
  fv_status :: "project_status option"

text \<open>
  \<^verbatim>\<open>formattedData\<close>, the body of the create and update requests: the form values with
  \<^verbatim>\<open>assigneeId\<close> and \<^verbatim>\<open>teamMemberIds\<close> replaced. The assignee may be
  \<^verbatim>\<open>null\<close> there.
\<close>

datatype nullable_string = Null | Undefined | Str string

record payload =
  pl_name :: string
  pl_description :: "string option"
  pl_clientId :: string
  pl_assigneeId :: nullable_string
  pl_teamMemberIds :: "string list"
  pl_isRecurring :: "bool option"
  pl_startDate :: "js_date option"
  pl_templateId :: "string option"
  pl_status :: "project_status option"

text \<open>
  The requests the modal sends through its axios instance, and what the backend
  answers. A rejected request carries \<^verbatim>\<open>error?.response?.data?.message\<close> (\<open>None\<close>
  when any link of that chain is missing); the body of a successful write carries the
  new record's \<^verbatim>\<open>_id\<close> and \<^verbatim>\<open>id\<close>.
\<close>

datatype http_request = Get string | Post string payload | Patch string payload

datatype api_error = ApiError (error_message: "string option")

record project_response =
  resp_oid :: "string option"
  resp_id :: "string option"

type_synonym write_backend = "http_request \<Rightarrow> api_error + project_response"

text \<open>
  The plain modal (\<^verbatim>\<open>components/projects/ProjectModal.tsx\<close>) keeps its fields in
  \<^verbatim>\<open>formData\<close> (\<^verbatim>\<open>CreateProjectFormData\<close>); \<^verbatim>\<open>frequency\<close> is absent until the
  frequency selector has been used. It sends \<^verbatim>\<open>newProject\<close>: the form data and the
  status.
\<close>

record formData =
  fd_name :: string
  fd_description :: string
  fd_clientId :: string
  fd_assigneeId :: string
  fd_teamMemberIds :: "string list"
  fd_repeating :: bool
  fd_dueDate :: string
  fd_frequency :: "string option"

record newProject = formData +
  np_status :: project_status

text \<open>
  What a handler does besides returning: console output, notifications, requests and
  calls of the callbacks the parent supplied, in the order they happen.
\<close>

datatype effect =
    ConsoleLog string
  | ConsoleError string
  | ToastSuccess string
  | ToastError string
  | Request http_request
  | CreateProject newProject
  | PreventDefault
  | ShowFieldError string string
  | OnCreated "string option"
  | OnUpdated
  | OnClose

text \<open>
  The network calls among the effects: a request of the axios instance, or a call of
  the \<^verbatim>\<open>createProject\<close> service.
\<close>

definition is_network_call :: "effect \<Rightarrow> bool" where
  "is_network_call e = (case e of Request r \<Rightarrow> True | CreateProject n \<Rightarrow> True | _ \<Rightarrow> False)"

definition network_calls :: "effect list \<Rightarrow> effect list" where
  "network_calls es = filter is_network_call es"

definition error_toasts :: "effect list \<Rightarrow> string list" where
  "error_toasts es = concat (map (\<lambda>e. case e of ToastError m \<Rightarrow> [m] | _ \<Rightarrow> []) es)"

text \<open>\<^verbatim>\<open>ProjectModalProps\<close>; an optional callback is present or not.\<close>

record props =
  prop_project :: "project option"
  prop_isEditing :: bool
  prop_onCreated :: bool
  prop_onUpdated :: bool

text \<open>The component's state: the form's values and its two \<^verbatim>\<open>useState\<close> flags.\<close>

record modal_state =
  st_form :: form_values
  st_open :: bool
  st_openTemplates :: bool

subsection \<open>Validation\<close>

text \<open>
  \<open>projectSchema\<close>: the issues of the name, the client and the start date in the
  order of the schema's keys, or the parsed values with the three defaults filled in.
\<close>

definition projectSchema :: "form_values \<Rightarrow> (string \<times> string) list + form_values" where
  "projectSchema v =
     (let issues =
        (if length (fv_name v) < 1 then [(''name'', ''Project name is required'')] else []) @
        (if length (fv_clientId v) < 1 then [(''clientId'', ''Client is required'')] else []) @
        (case fv_startDate v of
           None \<Rightarrow> [(''startDate'', ''Start date is required'')]
         | Some InvalidDate \<Rightarrow> [(''startDate'', ''Invalid date'')]
         | Some (Date t) \<Rightarrow> [])
      in if issues = [] then
           Inr (v\<lparr>fv_teamMemberIds :=
                     Some (case fv_teamMemberIds v of None \<Rightarrow> [] | Some ids \<Rightarrow> ids),
                   fv_isRecurring :=
                     Some (case fv_isRecurring v of None \<Rightarrow> False | Some b \<Rightarrow> b),
                   fv_status :=
                     Some (case fv_status v of None \<Rightarrow> NotStarted | Some s \<Rightarrow> s)\<rparr>)
         else Inl issues)"

subsection \<open>The mutations\<close>

definition formattedData :: "form_values \<Rightarrow> payload" where
  "formattedData data =
     \<lparr>pl_name = fv_name data,
      pl_description = fv_description data,
      pl_clientId = fv_clientId data,
      pl_assigneeId =
        (case fv_assigneeId data of
           None \<Rightarrow> Undefined
         | Some a \<Rightarrow> if a = ''none'' then Null else Str a),
      pl_teamMemberIds = (case fv_teamMemberIds data of Some ids \<Rightarrow> ids | None \<Rightarrow> []),
      pl_isRecurring = fv_isRecurring data,
      pl_startDate = fv_startDate data,
      pl_templateId = fv_templateId data,
      pl_status = fv_status data\<rparr>"

definition createMutation_mutationFn ::
  "write_backend \<Rightarrow> form_values \<Rightarrow> effect list \<times> (api_error + project_response)" where
  "createMutation_mutationFn backend data =
     (let request = Post ''/projects'' (formattedData data) in
      case backend request of
        Inr response_data \<Rightarrow>
          ([ConsoleLog ''Sending project data:'', Request request], Inr response_data)
      | Inl error \<Rightarrow>
          ([ConsoleLog ''Sending project data:'', Request request,
            ConsoleError ''Error creating project:''], Inl error))"

definition createMutation_onSuccess :: "props \<Rightarrow> project_response \<Rightarrow> effect list" where
  "createMutation_onSuccess p data =
     ToastSuccess ''Project created successfully'' #
     (if prop_onCreated p then [OnCreated (js_or (resp_oid data) (resp_id data))] else [])"

definition createMutation_onError :: "api_error \<Rightarrow> effect list" where
  "createMutation_onError error =
     [ToastError (or_default (error_message error) ''Failed to create project'')]"

definition updateMutation_mutationFn ::
  "write_backend \<Rightarrow> string \<Rightarrow> form_values \<Rightarrow> effect list \<times> (api_error + project_response)" where
  "updateMutation_mutationFn backend ident data =
     (let request = Patch (''/projects/'' @ ident) (formattedData data) in
      case backend request of
        Inr response_data \<Rightarrow>
          ([ConsoleLog ''Updating project data:'', Request request], Inr response_data)
      | Inl error \<Rightarrow>
          ([ConsoleLog ''Updating project data:'', Request request,
            ConsoleError ''Error updating project:''], Inl error))"

definition updateMutation_onSuccess :: "props \<Rightarrow> effect list" where
  "updateMutation_onSuccess p =
     ToastSuccess ''Project updated successfully'' #
     (if prop_onUpdated p then [OnUpdated] else [])"

definition updateMutation_onError :: "api_error \<Rightarrow> effect list" where
  "updateMutation_onError error =
     [ToastError (or_default (error_message error) ''Failed to update project'')]"

text \<open>
  \<^verbatim>\<open>mutate\<close> of the query library runs the mutation function once, then
  \<^verbatim>\<open>onSuccess\<close> with the resolved value or \<^verbatim>\<open>onError\<close> with the rejection.
\<close>

definition createMutation_mutate :: "props \<Rightarrow> write_backend \<Rightarrow> form_values \<Rightarrow> effect list" where
  "createMutation_mutate p backend data =
     (case createMutation_mutationFn backend data of
        (es, Inr response_data) \<Rightarrow> es @ createMutation_onSuccess p response_data
      | (es, Inl error) \<Rightarrow> es @ createMutation_onError error)"

definition updateMutation_mutate ::
  "props \<Rightarrow> write_backend \<Rightarrow> string \<Rightarrow> form_values \<Rightarrow> effect list" where
  "updateMutation_mutate p backend ident data =
     (case updateMutation_mutationFn backend ident data of
        (es, Inr response_data) \<Rightarrow> es @ updateMutation_onSuccess p
      | (es, Inl error) \<Rightarrow> es @ updateMutation_onError error)"

subsection \<open>Submission\<close>

definition onSubmit :: "props \<Rightarrow> write_backend \<Rightarrow> form_values \<Rightarrow> effect list" where
  "onSubmit p backend values =
     ConsoleLog ''Submitting form with values:'' #
     (case (prop_isEditing p, prop_project p) of
        (True, Some proj) \<Rightarrow>
          (case js_or (proj_id proj) (proj_oid proj) of
             Some projectId \<Rightarrow>
               if projectId \<noteq> [] then updateMutation_mutate p backend projectId values
               else [ToastError ''Cannot update project: Missing project ID'']
           | None \<Rightarrow> [ToastError ''Cannot update project: Missing project ID''])
      | _ \<Rightarrow> createMutation_mutate p backend values)"

text \<open>
  \<^verbatim>\<open>form.handleSubmit(onSubmit)\<close> with the schema as resolver: the form library
  validates the values, shows the issues beside their fields when there are any, and
  calls \<open>onSubmit\<close> with the parsed values otherwise. Nothing on this path writes to
  the form's values or to the component's flags.
\<close>

definition form_handleSubmit ::
  "props \<Rightarrow> write_backend \<Rightarrow> modal_state \<Rightarrow> effect list \<times> modal_state" where
  "form_handleSubmit p backend st =
     (case projectSchema (st_form st) of
        Inl issues \<Rightarrow> (map (\<lambda>(field, msg). ShowFieldError field msg) issues, st)
      | Inr values \<Rightarrow> (onSubmit p backend values, st))"

subsection \<open>Default values\<close>

text \<open>
  \<^verbatim>\<open>x ? new Date(x) : d\<close> and \<^verbatim>\<open>a || d\<close> on an optional boolean.
\<close>

definition date_or :: "(string \<Rightarrow> js_date) \<Rightarrow> date_field option \<Rightarrow> js_date \<Rightarrow> js_date" where
  "date_or parse x d =
     (case x of None \<Rightarrow> d | Some v \<Rightarrow> if truthy_date x then new_Date parse v else d)"

definition or_bool :: "bool option \<Rightarrow> bool \<Rightarrow> bool" where
  "or_bool a d = (case a of Some True \<Rightarrow> True | _ \<Rightarrow> d)"

text \<open>The clock (\<^verbatim>\<open>new Date()\<close>) and the date parser are parameters.\<close>

definition defaultValues :: "js_date \<Rightarrow> form_values" where
  "defaultValues now =
     \<lparr>fv_name = '''',
      fv_description = Some '''',
      fv_clientId = '''',
      fv_assigneeId = Some ''none'',
      fv_teamMemberIds = Some [],
      fv_isRecurring = Some False,
      fv_startDate = Some now,
      fv_templateId = Some '''',
      fv_status = Some NotStarted\<rparr>"

definition getDefaultValues :: "js_date \<Rightarrow> (string \<Rightarrow> js_date) \<Rightarrow> props \<Rightarrow> form_values" where
  "getDefaultValues now parse p =
     (case (prop_project p, prop_isEditing p) of
        (Some proj, True) \<Rightarrow>
          \<lparr>fv_name = or_default (Some (proj_name proj)) (fv_name (defaultValues now)),
           fv_description =
             Some (or_default (proj_description proj)
                     (or_default (fv_description (defaultValues now)) '''')),
           fv_clientId = or_default (Some (proj_clientId proj)) (fv_clientId (defaultValues now)),
           fv_assigneeId = Some (or_default (proj_assigneeId proj) ''none''),
           fv_teamMemberIds =
             Some (case proj_teamMemberIds proj of Some ids \<Rightarrow> ids | None \<Rightarrow> []),
           fv_isRecurring =
             Some (or_bool (proj_repeating proj)
                     (or_bool (proj_isRecurring proj)
                        (or_bool (fv_isRecurring (defaultValues now)) False))),
           fv_startDate =
             Some (date_or parse (proj_startDate proj)
                     (date_or parse (proj_dueDate proj) now)),
           fv_templateId =
             Some (or_default (proj_templateId proj)
                     (or_default (fv_templateId (defaultValues now)) '''')),
           fv_status =
             Some (case proj_status proj of Some s \<Rightarrow> s | None \<Rightarrow> NotStarted)\<rparr>
      | _ \<Rightarrow> defaultValues now)"

subsection \<open>Reference data\<close>

text \<open>
  A client, team member or template as the backend returns it (\<^verbatim>\<open>_id\<close> is
  \<open>ent_oid\<close>), and the body of a read response: an array, a falsy value, or some
  other value.
\<close>

record entity =
  ent_oid :: "string option"
  ent_id :: "string option"
  ent_name :: string

datatype fetched = FetchedArray "entity list" | FetchedFalsy | FetchedOther

type_synonym read_backend = "string \<Rightarrow> api_error + fetched"

text \<open>\<^verbatim>\<open>response.data || []\<close>\<close>

definition data_or_empty :: "fetched \<Rightarrow> fetched" where
  "data_or_empty d = (case d of FetchedFalsy \<Rightarrow> FetchedArray [] | _ \<Rightarrow> d)"

definition clients_queryFn :: "read_backend \<Rightarrow> effect list \<times> fetched" where
  "clients_queryFn backend =
     (case backend ''/clients'' of
        Inr response_data \<Rightarrow> ([Request (Get ''/clients'')], data_or_empty response_data)
      | Inl error \<Rightarrow>
          ([Request (Get ''/clients''), ConsoleError ''Error fetching clients:''],
           FetchedArray []))"

definition teamMembers_queryFn :: "read_backend \<Rightarrow> effect list \<times> fetched" where
  "teamMembers_queryFn backend =
     (case backend ''/team-members'' of
        Inr response_data \<Rightarrow> ([Request (Get ''/team-members'')], data_or_empty response_data)
      | Inl error \<Rightarrow>
          ([Request (Get ''/team-members''), ConsoleError ''Error fetching team members:''],
           FetchedArray []))"

definition templates_queryFn :: "read_backend \<Rightarrow> effect list \<times> fetched" where
  "templates_queryFn backend =
     (case backend ''/templates'' of
        Inr response_data \<Rightarrow> ([Request (Get ''/templates'')], data_or_empty response_data)
      | Inl error \<Rightarrow>
          ([Request (Get ''/templates''), ConsoleError ''Error fetching templates:''],
           FetchedArray []))"

text \<open>\<^verbatim>\<open>Array.isArray(data) ? data : []\<close>\<close>

definition ensure_array :: "fetched \<Rightarrow> entity list" where
  "ensure_array d = (case d of FetchedArray xs \<Rightarrow> xs | _ \<Rightarrow> [])"

text \<open>
  The three queries of the modal: what the component holds as \<^verbatim>\<open>clients\<close>,
  \<^verbatim>\<open>teamMembers\<close> and \<^verbatim>\<open>templates\<close> once they have settled.
\<close>

record reference_data =
  ref_clients :: "entity list"
  ref_teamMembers :: "entity list"
  ref_templates :: "entity list"

definition load_reference_data :: "read_backend \<Rightarrow> reference_data" where
  "load_reference_data backend =
     \<lparr>ref_clients = ensure_array (snd (clients_queryFn backend)),
      ref_teamMembers = ensure_array (snd (teamMembers_queryFn backend)),
      ref_templates = ensure_array (snd (templates_queryFn backend))\<rparr>"

subsection \<open>Team-member checkboxes\<close>

text \<open>\<^verbatim>\<open>member._id || member.id || ''\<close>\<close>

definition member_key :: "entity \<Rightarrow> string" where
  "member_key m = or_default (js_or (ent_oid m) (ent_id m)) ''''"

definition isSelected :: "entity \<Rightarrow> string list option \<Rightarrow> bool" where
  "isSelected m field_value =
     (let ident = member_key m;
          fieldValue = (case field_value of Some ids \<Rightarrow> ids | None \<Rightarrow> [])
      in if ident \<noteq> [] then ident \<in> set fieldValue else False)"

text \<open>
  The \<^verbatim>\<open>onChange\<close> handler of a member's checkbox; \<open>checked\<close> is
  \<^verbatim>\<open>e.target.checked\<close>, the result is the new value of the field.
\<close>

definition teamMemberIds_onChange :: "entity \<Rightarrow> bool \<Rightarrow> string list option \<Rightarrow> string list option" where
  "teamMemberIds_onChange m checked field_value =
     (let ident = member_key m;
          currentValues = (case field_value of Some ids \<Rightarrow> ids | None \<Rightarrow> [])
      in if checked \<and> ident \<noteq> [] then Some (currentValues @ [ident])
         else if ident \<noteq> [] then Some (filter (\<lambda>v. v \<noteq> ident) currentValues)
         else field_value)"

text \<open>
  A click on the checkbox: the browser flips the box, which was drawn checked when the
  member was selected, and fires the change event.
\<close>

definition checkbox_click :: "entity \<Rightarrow> string list option \<Rightarrow> string list option" where
  "checkbox_click m field_value =
     teamMemberIds_onChange m (\<not> isSelected m field_value) field_value"

section \<open>The plain project modal\<close>

text \<open>
  \<^verbatim>\<open>String.prototype.trim\<close> removes white space and line terminators from both ends.
  Among the characters of \<open>string\<close> these are the codes 9 to 13, 32 and 160.
\<close>

definition isWhiteSpace :: "char \<Rightarrow> bool" where
  "isWhiteSpace c = ((of_char c :: nat) \<in> {9, 10, 11, 12, 13, 32, 160})"

definition trim :: "string \<Rightarrow> string" where
  "trim s = rev (dropWhile isWhiteSpace (rev (dropWhile isWhiteSpace s)))"

text \<open>
  A team member or client as the services module returns it, and the component's
  state (its \<^verbatim>\<open>useState\<close> cells).
\<close>

record member =
  m_id :: string
  m_name :: string

record plain_state =
  ps_clients :: "member list"
  ps_teamMembers :: "member list"
  ps_loading :: bool
  ps_submitting :: bool
  ps_date :: "js_date option"
  ps_formData :: formData

text \<open>
  \<^verbatim>\<open>createProject\<close> of the services module is a parameter: given the new project it
  resolves or rejects.
\<close>

type_synonym create_service = "newProject \<Rightarrow> api_error + unit"

definition handleSubmit :: "create_service \<Rightarrow> plain_state \<Rightarrow> effect list \<times> plain_state" where
  "handleSubmit createProject st =
     (let formData = ps_formData st in
      if trim (fd_name formData) = [] then
        ([PreventDefault, ToastError ''Project name is required''], st)
      else if fd_clientId formData = [] then
        ([PreventDefault, ToastError ''Client selection is required''], st)
      else
        (let newProject = formData.extend formData \<lparr>np_status = NotStarted\<rparr> in
         case createProject newProject of
           Inr ok \<Rightarrow>
             ([PreventDefault, CreateProject newProject,
               ToastSuccess ''Project created successfully'', OnClose],
              st\<lparr>ps_submitting := False\<rparr>)
         | Inl error \<Rightarrow>
             ([PreventDefault, CreateProject newProject,
               ConsoleError ''Error creating project:'',
               ToastError ''Failed to create project''],
              st\<lparr>ps_submitting := False\<rparr>)))"

subsection \<open>The rendered form and the browser's validation\<close>

text \<open>
  The controls of the rendered \<^verbatim>\<open>form\<close> that take part in validation, with their
  name, their value and their \<^verbatim>\<open>required\<close> attribute. The frequency selector is
  rendered only while \<^verbatim>\<open>formData.repeating\<close> holds; while \<^verbatim>\<open>formData.frequency\<close>
  is undefined it shows its first option, whose value is empty.
\<close>

datatype control =
    TextControl string string bool
  | SelectControl string string bool
  | MultiSelectControl string "string list" bool

definition form_controls :: "formData \<Rightarrow> control list" where
  "form_controls formData =
     [TextControl ''name'' (fd_name formData) True,
      TextControl ''description'' (fd_description formData) False,
      SelectControl ''clientId'' (fd_clientId formData) True,
      SelectControl ''assigneeId'' (fd_assigneeId formData) False,
      MultiSelectControl ''teamMemberIds'' (fd_teamMemberIds formData) False] @
     (if fd_repeating formData then
        [SelectControl ''frequency''
           (case fd_frequency formData of None \<Rightarrow> '''' | Some f \<Rightarrow> f)
           (fd_repeating formData)]
      else [])"

text \<open>
  Constraint validation of the browser: a required control with an empty value (for a
  selector: with the empty placeholder option selected) suffers from a missing value,
  and a form with such a control does not fire its submit event.
\<close>

definition valueMissing :: "control \<Rightarrow> bool" where
  "valueMissing c =
     (case c of
        TextControl n v required \<Rightarrow> required \<and> v = []
      | SelectControl n v required \<Rightarrow> required \<and> v = []
      | MultiSelectControl n vs required \<Rightarrow> required \<and> vs = [])"

definition checkValidity :: "control list \<Rightarrow> bool" where
  "checkValidity cs = (filter valueMissing cs = [])"

definition submit_form :: "create_service \<Rightarrow> plain_state \<Rightarrow> effect list \<times> plain_state" where
  "submit_form createProject st =
     (if checkValidity (form_controls (ps_formData st)) then handleSubmit createProject st
      else ([], st))"

subsection \<open>The team-member selector\<close>

text \<open>
  The \<^verbatim>\<open>select multiple\<close> element: one option per team member in the order of the
  list, selected when its value is among \<^verbatim>\<open>formData.teamMemberIds\<close>. Its
  \<^verbatim>\<open>selectedOptions\<close> are the selected options in document order. A click with the
  modifier key held flips the option that was clicked, given by its position, and leaves
  the others.
\<close>

record option_element =
  opt_value :: string
  opt_selected :: bool

definition teamMemberIds_options :: "member list \<Rightarrow> formData \<Rightarrow> option_element list" where
  "teamMemberIds_options teamMembers formData =
     map (\<lambda>m. \<lparr>opt_value = m_id m, opt_selected = m_id m \<in> set (fd_teamMemberIds formData)\<rparr>)
       teamMembers"

definition selectedOptions :: "option_element list \<Rightarrow> option_element list" where
  "selectedOptions opts = filter opt_selected opts"

definition toggle_option :: "nat \<Rightarrow> option_element list \<Rightarrow> option_element list" where
  "toggle_option i opts =
     (if i < length opts then
        opts[i := (opts ! i)\<lparr>opt_selected := \<not> opt_selected (opts ! i)\<rparr>]
      else opts)"

definition handleTeamMemberSelection :: "option_element list \<Rightarrow> formData \<Rightarrow> formData" where
  "handleTeamMemberSelection target formData =
     formData\<lparr>fd_teamMemberIds := map opt_value (selectedOptions target)\<rparr>"

definition select_click :: "member list \<Rightarrow> nat \<Rightarrow> formData \<Rightarrow> formData" where
  "select_click teamMembers i formData =
     handleTeamMemberSelection (toggle_option i (teamMemberIds_options teamMembers formData))
       formData"

section \<open>The pagination link\<close>

text \<open>
  \<^verbatim>\<open>PaginationLinkProps\<close>. The caller's \<^verbatim>\<open>onClick\<close> is one of the remaining
  anchor properties collected in \<^verbatim>\<open>...props\<close>: not passed, passed as
  \<^verbatim>\<open>undefined\<close>, or a handler. What the handler does is the caller's; its call is
  the effect \<open>PropsOnClick\<close>.
\<close>

datatype onClick_prop = NotPassed | PassedUndefined | PassedHandler

record PaginationLinkProps =
  lp_className :: "string list"
  lp_isActive :: "bool option"
  lp_disabled :: "bool option"
  lp_size :: "string option"
  lp_onClick :: onClick_prop

datatype click_effect = EventPreventDefault | PropsOnClick

text \<open>The arrow function written in the \<^verbatim>\<open>onClick\<close> attribute.\<close>

definition inline_onClick :: "PaginationLinkProps \<Rightarrow> click_effect list" where
  "inline_onClick p =
     (if lp_disabled p = Some True then [EventPreventDefault] else []) @
     (if lp_onClick p = PassedHandler then [PropsOnClick] else [])"

text \<open>
  The rendered anchor. The attributes are written in the order \<^verbatim>\<open>onClick={...}\<close>,
  \<^verbatim>\<open>{...props}\<close>, so an \<^verbatim>\<open>onClick\<close> among the spread properties replaces the
  arrow function.
\<close>

record anchor =
  a_aria_current :: "string option"
  a_aria_disabled :: "bool option"
  a_className :: "string list"
  a_onClick :: "click_effect list option"

definition PaginationLink :: "PaginationLinkProps \<Rightarrow> anchor" where
  "PaginationLink p =
     \<lparr>a_aria_current = (if lp_isActive p = Some True then Some ''page'' else None),
      a_aria_disabled = lp_disabled p,
      a_className =
        [if lp_isActive p = Some True then ''outline'' else ''ghost'',
         (case lp_size p of None \<Rightarrow> ''icon'' | Some s \<Rightarrow> s)] @
        (if lp_disabled p = Some True then [''pointer-events-none opacity-50''] else []) @
        lp_className p,
      a_onClick =
        (case lp_onClick p of
           NotPassed \<Rightarrow> Some (inline_onClick p)
         | PassedUndefined \<Rightarrow> None
         | PassedHandler \<Rightarrow> Some [PropsOnClick])\<rparr>"

text \<open>A click event dispatched on the anchor runs the handler in its attribute.\<close>

definition click :: "PaginationLinkProps \<Rightarrow> click_effect list" where
  "click p = (case a_onClick (PaginationLink p) of None \<Rightarrow> [] | Some es \<Rightarrow> es)"

section \<open>Example data\<close>

text \<open>
  Team members (A and C as the backend returns them, A, B and C as the services module
  does), a project without an identifier, and valid form values.
\<close>

definition memberA :: entity where
  "memberA = \<lparr>ent_oid = Some ''A'', ent_id = None, ent_name = ''Ada''\<rparr>"

definition memberC :: entity where
  "memberC = \<lparr>ent_oid = None, ent_id = Some ''C'', ent_name = ''Cy''\<rparr>"

definition plain_members :: "member list" where
  "plain_members =
     [\<lparr>m_id = ''A'', m_name = ''Ada''\<rparr>, \<lparr>m_id = ''B'', m_name = ''Bob''\<rparr>,
      \<lparr>m_id = ''C'', m_name = ''Cy''\<rparr>]"

definition example_values :: form_values where
  "example_values =
     \<lparr>fv_name = ''Audit'',
      fv_description = Some '''',
      fv_clientId = ''c1'',
      fv_assigneeId = Some ''none'',
      fv_teamMemberIds = None,
      fv_isRecurring = Some False,
      fv_startDate = Some (Date 0),
      fv_templateId = Some '''',
      fv_status = Some NotStarted\<rparr>"

definition example_state :: modal_state where
  "example_state = \<lparr>st_form = example_values, st_open = False, st_openTemplates = False\<rparr>"

definition example_project :: project where
  "example_project =
     \<lparr>proj_id = None, proj_oid = None, proj_name = ''Audit'', proj_description = None,
      proj_clientId = ''c1'', proj_status = None, proj_dueDate = Some (DateString ''2024-05-01''),
      proj_startDate = None, proj_assigneeId = None, proj_teamMemberIds = None,
      proj_repeating = None, proj_isRecurring = None, proj_templateId = None\<rparr>"

definition editing_props :: props where
  "editing_props =
     \<lparr>prop_project = Some example_project, prop_isEditing = True,
      prop_onCreated = True, prop_onUpdated = True\<rparr>"

definition creating_props :: props where
  "creating_props =
     \<lparr>prop_project = None, prop_isEditing = False, prop_onCreated = True, prop_onUpdated = True\<rparr>"

definition example_formData :: formData where
  "example_formData =
     \<lparr>fd_name = ''Audit'', fd_description = '''', fd_clientId = ''c1'', fd_assigneeId = '''',
      fd_teamMemberIds = [], fd_repeating = True, fd_dueDate = ''2024-05-01'',
      fd_frequency = None\<rparr>"

definition example_plain_state :: plain_state where
  "example_plain_state =
     \<lparr>ps_clients = [], ps_teamMembers = plain_members, ps_loading = False,
      ps_submitting = False, ps_date = Some (Date 0), ps_formData = example_formData\<rparr>"

text \<open>Backends: one that accepts every write, one that rejects every write.\<close>

definition accepting_backend :: write_backend where
  "accepting_backend request = Inr \<lparr>resp_oid = None, resp_id = Some ''p1''\<rparr>"

definition rejecting_backend :: write_backend where
  "rejecting_backend request = Inl (ApiError (Some ''Name already exists''))"

definition rejecting_service :: create_service where
  "rejecting_service n = Inl (ApiError (Some ''Name already exists''))"

definition accepting_service :: create_service where
  "accepting_service n = Inr ()"

text \<open>
  A backend that accepts a create and rejects an update, and one that rejects a create
  and accepts an update.
\<close>

definition post_only_backend :: write_backend where
  "post_only_backend request =
     (case request of
        Post url body \<Rightarrow> Inr \<lparr>resp_oid = Some ''p1'', resp_id = None\<rparr>
      | _ \<Rightarrow> Inl (ApiError (Some ''Project not found'')))"

definition patch_only_backend :: write_backend where
  "patch_only_backend request =
     (case request of
        Patch url body \<Rightarrow> Inr \<lparr>resp_oid = Some ''p7'', resp_id = None\<rparr>
      | _ \<Rightarrow> Inl (ApiError (Some ''Name already exists'')))"

text \<open>
  A caller that passes \<^verbatim>\<open>onCreated\<close> only, and one that edits the project
  \<^verbatim>\<open>'p7'\<close> and passes \<^verbatim>\<open>onUpdated\<close> only.
\<close>

definition create_only_props :: props where
  "create_only_props =
     \<lparr>prop_project = None, prop_isEditing = False, prop_onCreated = True,
      prop_onUpdated = False\<rparr>"

definition update_only_props :: props where
  "update_only_props =
     \<lparr>prop_project = Some (example_project\<lparr>proj_id := Some ''p7''\<rparr>), prop_isEditing = True,
      prop_onCreated = False, prop_onUpdated = True\<rparr>"

text \<open>The plain modal filled in for a project that does not repeat.\<close>

definition one_off_plain_state :: plain_state where
  "one_off_plain_state =
     example_plain_state\<lparr>ps_formData := example_formData\<lparr>fd_repeating := False\<rparr>\<rparr>"

text \<open>A read backend on which only the team members fail.\<close>

definition partial_backend :: read_backend where
  "partial_backend url =
     (if url = ''/team-members'' then Inl (ApiError None)
      else if url = ''/clients'' then
        Inr (FetchedArray [\<lparr>ent_oid = Some ''c1'', ent_id = None, ent_name = ''Acme''\<rparr>])
      else Inr FetchedFalsy)"

text \<open>A read backend on which every fetch fails.\<close>

definition all_failing :: read_backend where
  "all_failing url = Inl (ApiError None)"

text \<open>A disabled pagination link whose caller passed a click handler.\<close>

definition disabled_link_with_handler :: PaginationLinkProps where
  "disabled_link_with_handler =
     \<lparr>lp_className = [], lp_isActive = None, lp_disabled = Some True, lp_size = None,
      lp_onClick = PassedHandler\<rparr>"

section \<open>Reading the effects\<close>

lemma network_calls_simps:
  "network_calls [] = []"
  "network_calls (ConsoleLog s # es) = network_calls es"
  "network_calls (ConsoleError s # es) = network_calls es"
  "network_calls (ToastSuccess s # es) = network_calls es"
  "network_calls (ToastError s # es) = network_calls es"
  "network_calls (Request r # es) = Request r # network_calls es"
  "network_calls (CreateProject n # es) = CreateProject n # network_calls es"
  "network_calls (PreventDefault # es) = network_calls es"
  "network_calls (ShowFieldError f m # es) = network_calls es"
  "network_calls (OnCreated i # es) = network_calls es"
  "network_calls (OnUpdated # es) = network_calls es"
  "network_calls (OnClose # es) = network_calls es"
  by (simp_all add: network_calls_def is_network_call_def)

lemma network_calls_field_errors:
  "network_calls (map (\<lambda>(field, msg). ShowFieldError field msg) issues) = []"
  by (induction issues) (auto simp: network_calls_simps)

lemma error_toasts_simps:
  "error_toasts [] = []"
  "error_toasts (ConsoleLog s # es) = error_toasts es"
  "error_toasts (ConsoleError s # es) = error_toasts es"
  "error_toasts (ToastSuccess s # es) = error_toasts es"
  "error_toasts (ToastError s # es) = s # error_toasts es"
  "error_toasts (Request r # es) = error_toasts es"
  "error_toasts (CreateProject n # es) = error_toasts es"
  "error_toasts (PreventDefault # es) = error_toasts es"
  "error_toasts (ShowFieldError f m # es) = error_toasts es"
  "error_toasts (OnCreated i # es) = error_toasts es"
  "error_toasts (OnUpdated # es) = error_toasts es"
  "error_toasts (OnClose # es) = error_toasts es"
  by (simp_all add: error_toasts_def)

section \<open>Required fields\<close>

lemma projectSchema_rejects_empty:
  assumes "fv_name v = [] \<or> fv_clientId v = []"
  shows "\<exists>issues. projectSchema v = Inl issues"
  using assms by (auto simp: projectSchema_def Let_def)

lemma handleSubmit_empty_no_call:
  assumes "fd_name (ps_formData s) = [] \<or> fd_clientId (ps_formData s) = []"
  shows "network_calls (fst (handleSubmit createProject s)) = []"
  using assms by (auto simp: handleSubmit_def Let_def trim_def network_calls_simps)

lemma submit_form_empty_no_call:
  assumes "fd_name (ps_formData s) = [] \<or> fd_clientId (ps_formData s) = []"
  shows "network_calls (fst (submit_form createProject s)) = []"
  using handleSubmit_empty_no_call[OF assms] by (simp add: submit_form_def network_calls_simps)

lemma form_handleSubmit_empty_no_call:
  assumes "fv_name (st_form t) = [] \<or> fv_clientId (st_form t) = []"
  shows "network_calls (fst (form_handleSubmit p backend t)) = []"
proof -
  obtain issues where "projectSchema (st_form t) = Inl issues"
    using projectSchema_rejects_empty[OF assms] by blast
  then show ?thesis
    by (simp add: form_handleSubmit_def network_calls_field_errors)
qed

text \<open>
  C1. A submission with an empty name or an empty client issues no network call: in the
  plain modal neither the handler \<open>handleSubmit\<close> nor the form around it reaches
  \<^verbatim>\<open>createProject\<close>, and in the schema-validated modal the schema rejects the values
  before \<open>onSubmit\<close> runs, so nothing is posted or patched.
\<close>

theorem empty_name_or_client_no_network_call:
  "(fd_name (ps_formData s) = [] \<or> fd_clientId (ps_formData s) = [] \<longrightarrow>
      network_calls (fst (handleSubmit createProject s)) = [] \<and>
      network_calls (fst (submit_form createProject s)) = []) \<and>
   (fv_name (st_form t) = [] \<or> fv_clientId (st_form t) = [] \<longrightarrow>
      network_calls (fst (form_handleSubmit p backend t)) = [])"
  using handleSubmit_empty_no_call submit_form_empty_no_call form_handleSubmit_empty_no_call
  by blast

theorem empty_name_or_client_no_network_call_witness:
  "network_calls (fst (handleSubmit accepting_service
      (example_plain_state\<lparr>ps_formData := example_formData\<lparr>fd_name := ''''\<rparr>\<rparr>))) = [] \<and>
   network_calls (fst (submit_form accepting_service
      (example_plain_state\<lparr>ps_formData := example_formData\<lparr>fd_name := ''''\<rparr>\<rparr>))) = [] \<and>
   network_calls (fst (form_handleSubmit creating_props accepting_backend
      (example_state\<lparr>st_form := example_values\<lparr>fv_clientId := ''''\<rparr>\<rparr>))) = []"
  using empty_name_or_client_no_network_call
    [of "example_plain_state\<lparr>ps_formData := example_formData\<lparr>fd_name := ''''\<rparr>\<rparr>"
        accepting_service
        "example_state\<lparr>st_form := example_values\<lparr>fv_clientId := ''''\<rparr>\<rparr>"
        creating_props accepting_backend]
  by simp

section \<open>Updating a project that has no identifier\<close>

text \<open>
  C10. In edit mode, when the supplied project has neither \<^verbatim>\<open>id\<close> nor \<^verbatim>\<open>_id\<close>,
  \<open>onSubmit\<close> logs the values and shows the notification about the missing project
  identifier; it issues no network call, and the submission leaves the component's
  state as it was.
\<close>

theorem missing_project_id_no_update:
  assumes "prop_isEditing p" and "prop_project p = Some proj"
    and "proj_id proj = None" and "proj_oid proj = None"
  shows "onSubmit p backend values =
           [ConsoleLog ''Submitting form with values:'',
            ToastError ''Cannot update project: Missing project ID''] \<and>
         network_calls (onSubmit p backend values) = [] \<and>
         error_toasts (onSubmit p backend values) =
           [''Cannot update project: Missing project ID''] \<and>
         (projectSchema (st_form st) = Inr values \<longrightarrow>
            form_handleSubmit p backend st =
              ([ConsoleLog ''Submitting form with values:'',
                ToastError ''Cannot update project: Missing project ID''], st))"
proof -
  have run: "onSubmit p backend values =
           [ConsoleLog ''Submitting form with values:'',
            ToastError ''Cannot update project: Missing project ID'']"
    using assms by (simp add: onSubmit_def js_or_def truthy_def)
  show ?thesis
    by (simp add: run network_calls_simps error_toasts_simps form_handleSubmit_def)
qed

theorem missing_project_id_no_update_witness:
  "onSubmit editing_props accepting_backend example_values =
     [ConsoleLog ''Submitting form with values:'',
      ToastError ''Cannot update project: Missing project ID''] \<and>
   network_calls (onSubmit editing_props accepting_backend example_values) = [] \<and>
   form_handleSubmit editing_props accepting_backend example_state =
     ([ConsoleLog ''Submitting form with values:'',
       ToastError ''Cannot update project: Missing project ID''], example_state)"
proof -
  have parsed: "projectSchema (st_form example_state) =
      Inr (example_values\<lparr>fv_teamMemberIds := Some []\<rparr>)"
    by (simp add: projectSchema_def example_state_def example_values_def)
  have h: "prop_isEditing editing_props" "prop_project editing_props = Some example_project"
    "proj_id example_project = None" "proj_oid example_project = None"
    by (simp_all add: editing_props_def example_project_def)
  from missing_project_id_no_update [OF h, of accepting_backend example_values example_state]
    missing_project_id_no_update [OF h, of accepting_backend
      "example_values\<lparr>fv_teamMemberIds := Some []\<rparr>" example_state]
    parsed
  show ?thesis by (simp add: network_calls_simps)
qed

section \<open>The request body\<close>

lemma createMutation_mutate_calls:
  "network_calls (createMutation_mutate p backend values) =
     [Request (Post ''/projects'' (formattedData values))]"
  by (cases "backend (Post ''/projects'' (formattedData values))")
     (simp_all add: createMutation_mutate_def createMutation_mutationFn_def
        createMutation_onSuccess_def createMutation_onError_def network_calls_simps)

lemma updateMutation_mutate_calls:
  "network_calls (updateMutation_mutate p backend ident values) =
     [Request (Patch (''/projects/'' @ ident) (formattedData values))]"
  by (cases "backend (Patch (''/projects/'' @ ident) (formattedData values))")
     (simp_all add: updateMutation_mutate_def updateMutation_mutationFn_def
        updateMutation_onSuccess_def updateMutation_onError_def network_calls_simps)

text \<open>
  C4. When the assignee field holds \<^verbatim>\<open>'none'\<close>, the one request a create and the
  one request an update send carry \<open>formattedData\<close>, whose assignee is \<^verbatim>\<open>null\<close> and
  whose team-member selection is a list: the selection of the form when that is an
  array, the empty list otherwise.
\<close>

theorem none_assignee_sent_as_null:
  assumes "fv_assigneeId values = Some ''none''"
  shows "network_calls (createMutation_mutate p backend values) =
           [Request (Post ''/projects'' (formattedData values))] \<and>
         network_calls (updateMutation_mutate p backend ident values) =
           [Request (Patch (''/projects/'' @ ident) (formattedData values))] \<and>
         pl_assigneeId (formattedData values) = Null \<and>
         pl_teamMemberIds (formattedData values) =
           (case fv_teamMemberIds values of Some ids \<Rightarrow> ids | None \<Rightarrow> [])"
  using assms
  by (simp add: createMutation_mutate_calls updateMutation_mutate_calls formattedData_def)

theorem none_assignee_sent_as_null_witness:
  "network_calls (createMutation_mutate creating_props accepting_backend example_values) =
     [Request (Post ''/projects'' (formattedData example_values))] \<and>
   network_calls (updateMutation_mutate editing_props rejecting_backend ''p7'' example_values) =
     [Request (Patch ''/projects/p7'' (formattedData example_values))] \<and>
   pl_assigneeId (formattedData example_values) = Null \<and>
   pl_teamMemberIds (formattedData example_values) = []"
proof -
  have h: "fv_assigneeId example_values = Some ''none''"
    by (simp add: example_values_def)
  have t: "fv_teamMemberIds example_values = None"
    by (simp add: example_values_def)
  from none_assignee_sent_as_null [OF h, of creating_props accepting_backend]
    none_assignee_sent_as_null [OF h, of editing_props rejecting_backend "''p7''"]
  show ?thesis by (simp add: t)
qed

section \<open>Successful writes\<close>

text \<open>
  C5. When the create request succeeds and the response carries the identifier \<open>i\<close>
  (for instance \<^verbatim>\<open>'p1'\<close>) in \<^verbatim>\<open>_id\<close>, or in \<^verbatim>\<open>id\<close> with \<^verbatim>\<open>_id\<close> missing or
  empty, the supplied \<^verbatim>\<open>onCreated\<close> callback is called once, after the success
  notification, with exactly \<open>i\<close>. When the update request succeeds, the supplied
  \<^verbatim>\<open>onUpdated\<close> callback is called once, with no argument. Neither half asks
  anything of the other request or of the other callback.
\<close>

theorem created_callback_receives_identifier:
  "(backend (Post ''/projects'' (formattedData data)) = Inr r \<and> i \<noteq> [] \<and>
    (resp_oid r = Some i \<or> (\<not> truthy (resp_oid r) \<and> resp_id r = Some i)) \<and>
    prop_onCreated p \<longrightarrow>
      createMutation_mutate p backend data =
        [ConsoleLog ''Sending project data:'',
         Request (Post ''/projects'' (formattedData data)),
         ToastSuccess ''Project created successfully'',
         OnCreated (Some i)]) \<and>
   (backend (Patch (''/projects/'' @ ident) (formattedData data)) = Inr ru \<and>
    prop_onUpdated p \<longrightarrow>
      updateMutation_mutate p backend ident data =
        [ConsoleLog ''Updating project data:'',
         Request (Patch (''/projects/'' @ ident) (formattedData data)),
         ToastSuccess ''Project updated successfully'',
         OnUpdated])"
proof (intro conjI impI)
  assume h: "backend (Post ''/projects'' (formattedData data)) = Inr r \<and> i \<noteq> [] \<and>
    (resp_oid r = Some i \<or> (\<not> truthy (resp_oid r) \<and> resp_id r = Some i)) \<and>
    prop_onCreated p"
  then have "js_or (resp_oid r) (resp_id r) = Some i"
    by (auto simp: js_or_def truthy_def)
  with h show "createMutation_mutate p backend data =
        [ConsoleLog ''Sending project data:'',
         Request (Post ''/projects'' (formattedData data)),
         ToastSuccess ''Project created successfully'',
         OnCreated (Some i)]"
    by (simp add: createMutation_mutate_def createMutation_mutationFn_def
        createMutation_onSuccess_def)
next
  assume "backend (Patch (''/projects/'' @ ident) (formattedData data)) = Inr ru \<and>
    prop_onUpdated p"
  then show "updateMutation_mutate p backend ident data =
        [ConsoleLog ''Updating project data:'',
         Request (Patch (''/projects/'' @ ident) (formattedData data)),
         ToastSuccess ''Project updated successfully'',
         OnUpdated]"
    by (simp add: updateMutation_mutate_def updateMutation_mutationFn_def
        updateMutation_onSuccess_def)
qed

theorem created_callback_receives_identifier_witness:
  "createMutation_mutate create_only_props post_only_backend example_values =
     [ConsoleLog ''Sending project data:'',
      Request (Post ''/projects'' (formattedData example_values)),
      ToastSuccess ''Project created successfully'',
      OnCreated (Some ''p1'')] \<and>
   createMutation_mutate create_only_props accepting_backend example_values =
     [ConsoleLog ''Sending project data:'',
      Request (Post ''/projects'' (formattedData example_values)),
      ToastSuccess ''Project created successfully'',
      OnCreated (Some ''p1'')] \<and>
   updateMutation_mutate update_only_props patch_only_backend ''p7'' example_values =
     [ConsoleLog ''Updating project data:'',
      Request (Patch ''/projects/p7'' (formattedData example_values)),
      ToastSuccess ''Project updated successfully'',
      OnUpdated]"
proof -
  let ?r = "\<lparr>resp_oid = Some ''p1'', resp_id = None\<rparr>"
  let ?q = "\<lparr>resp_oid = None, resp_id = Some ''p1''\<rparr>"
  let ?u = "\<lparr>resp_oid = Some ''p7'', resp_id = None\<rparr>"
  have a: "post_only_backend (Post ''/projects'' (formattedData example_values)) = Inr ?r"
    "accepting_backend (Post ''/projects'' (formattedData example_values)) = Inr ?q"
    "patch_only_backend (Patch (''/projects/'' @ ''p7'') (formattedData example_values)) = Inr ?u"
    by (simp_all add: post_only_backend_def accepting_backend_def patch_only_backend_def)
  have b: "resp_oid ?r = Some ''p1''" "\<not> truthy (resp_oid ?q)" "resp_id ?q = Some ''p1''"
    by (simp_all add: truthy_def)
  have c: "prop_onCreated create_only_props" "prop_onUpdated update_only_props"
    by (simp_all add: create_only_props_def update_only_props_def)
  from a b c
    created_callback_receives_identifier
      [where backend = post_only_backend and data = example_values and r = "?r"
         and i = "''p1''" and p = create_only_props]
    created_callback_receives_identifier
      [where backend = accepting_backend and data = example_values and r = "?q"
         and i = "''p1''" and p = create_only_props]
    created_callback_receives_identifier
      [where backend = patch_only_backend and data = example_values and ident = "''p7''"
         and ru = "?u" and p = update_only_props]
  show ?thesis by simp
qed

section \<open>Failed writes\<close>

lemma createMutation_mutate_failed:
  assumes "backend (Post ''/projects'' (formattedData data)) = Inl e"
  shows "createMutation_mutate p backend data =
           [ConsoleLog ''Sending project data:'',
            Request (Post ''/projects'' (formattedData data)),
            ConsoleError ''Error creating project:'',
            ToastError (or_default (error_message e) ''Failed to create project'')]"
  using assms
  by (simp add: createMutation_mutate_def createMutation_mutationFn_def
      createMutation_onError_def)

lemma updateMutation_mutate_failed:
  assumes "backend (Patch (''/projects/'' @ ident) (formattedData data)) = Inl e"
  shows "updateMutation_mutate p backend ident data =
           [ConsoleLog ''Updating project data:'',
            Request (Patch (''/projects/'' @ ident) (formattedData data)),
            ConsoleError ''Error updating project:'',
            ToastError (or_default (error_message e) ''Failed to update project'')]"
  using assms
  by (simp add: updateMutation_mutate_def updateMutation_mutationFn_def
      updateMutation_onError_def)

lemma onSubmit_create_mode:
  assumes "\<not> prop_isEditing p \<or> prop_project p = None"
  shows "onSubmit p backend data =
           ConsoleLog ''Submitting form with values:'' # createMutation_mutate p backend data"
  using assms by (auto simp: onSubmit_def split: option.splits bool.splits)

lemma onSubmit_edit_mode:
  assumes "prop_isEditing p" and "prop_project p = Some proj"
    and "proj_id proj = Some ident \<or> (\<not> truthy (proj_id proj) \<and> proj_oid proj = Some ident)"
    and "ident \<noteq> []"
  shows "onSubmit p backend data =
           ConsoleLog ''Submitting form with values:'' #
           updateMutation_mutate p backend ident data"
proof -
  have "js_or (proj_id proj) (proj_oid proj) = Some ident"
    using assms(3,4) by (auto simp: js_or_def truthy_def)
  then show ?thesis
    using assms(1,2,4) by (simp add: onSubmit_def)
qed

lemma handleSubmit_failed:
  assumes "trim (fd_name (ps_formData s)) \<noteq> []" and "fd_clientId (ps_formData s) \<noteq> []"
    and "createProject (formData.extend (ps_formData s) \<lparr>np_status = NotStarted\<rparr>) = Inl e"
  shows "handleSubmit createProject s =
           ([PreventDefault,
             CreateProject (formData.extend (ps_formData s) \<lparr>np_status = NotStarted\<rparr>),
             ConsoleError ''Error creating project:'',
             ToastError ''Failed to create project''],
            s\<lparr>ps_submitting := False\<rparr>)"
  using assms by (simp add: handleSubmit_def Let_def)

text \<open>
  The plain modal does not read the rejection: the form is filled in for a project that
  does not repeat, so the browser lets the submission through, and when
  \<^verbatim>\<open>createProject\<close> rejects with the backend's message \<^verbatim>\<open>'Name already exists'\<close>
  the notification still reads \<^verbatim>\<open>'Failed to create project'\<close>.
\<close>

theorem plain_modal_generic_message_counterexample:
  "checkValidity (form_controls (ps_formData one_off_plain_state)) \<and>
   rejecting_service (formData.extend (ps_formData one_off_plain_state) \<lparr>np_status = NotStarted\<rparr>) =
     Inl (ApiError (Some ''Name already exists'')) \<and>
   error_toasts (fst (submit_form rejecting_service one_off_plain_state)) =
     [''Failed to create project''] \<and>
   error_toasts (fst (submit_form rejecting_service one_off_plain_state)) \<noteq>
     [''Name already exists'']"
  by (simp add: submit_form_def checkValidity_def form_controls_def valueMissing_def
      handleSubmit_def Let_def rejecting_service_def one_off_plain_state_def
      example_plain_state_def example_formData_def trim_def isWhiteSpace_def error_toasts_simps)

text \<open>
  C6, as amended. Every failed create or update call ends in one error notification,
  and the form is kept. In the schema-validated modal the text is the backend's message
  when the rejection carries a non-empty one, and \<^verbatim>\<open>'Failed to create project'\<close> or
  \<^verbatim>\<open>'Failed to update project'\<close> otherwise; the submission whose request failed
  leaves the component's state as it was and does not close the modal. In the plain
  modal the text is always \<^verbatim>\<open>'Failed to create project'\<close>; the form data stay as they
  were, \<^verbatim>\<open>onClose\<close> is not called and \<^verbatim>\<open>submitting\<close> is false again. A failed
  create, a failed update and a failed call of the plain modal are each covered on
  their own.
\<close>

theorem failed_write_shows_error_and_keeps_form:
  "(backend (Post ''/projects'' (formattedData data)) = Inl e \<longrightarrow>
      createMutation_mutate p backend data =
        [ConsoleLog ''Sending project data:'',
         Request (Post ''/projects'' (formattedData data)),
         ConsoleError ''Error creating project:'',
         ToastError (case error_message e of
                       None \<Rightarrow> ''Failed to create project''
                     | Some m \<Rightarrow> if m = [] then ''Failed to create project'' else m)]) \<and>
   (backend (Patch (''/projects/'' @ ident) (formattedData data)) = Inl e \<longrightarrow>
      updateMutation_mutate p backend ident data =
        [ConsoleLog ''Updating project data:'',
         Request (Patch (''/projects/'' @ ident) (formattedData data)),
         ConsoleError ''Error updating project:'',
         ToastError (case error_message e of
                       None \<Rightarrow> ''Failed to update project''
                     | Some m \<Rightarrow> if m = [] then ''Failed to update project'' else m)]) \<and>
   (projectSchema (st_form st) = Inr data \<and>
    (\<not> prop_isEditing p \<or> prop_project p = None) \<and>
    backend (Post ''/projects'' (formattedData data)) = Inl e \<longrightarrow>
      form_handleSubmit p backend st =
        ([ConsoleLog ''Submitting form with values:'',
          ConsoleLog ''Sending project data:'',
          Request (Post ''/projects'' (formattedData data)),
          ConsoleError ''Error creating project:'',
          ToastError (case error_message e of
                        None \<Rightarrow> ''Failed to create project''
                      | Some m \<Rightarrow> if m = [] then ''Failed to create project'' else m)],
         st)) \<and>
   (projectSchema (st_form st) = Inr data \<and>
    prop_isEditing p \<and> prop_project p = Some proj \<and>
    (proj_id proj = Some ident \<or> (\<not> truthy (proj_id proj) \<and> proj_oid proj = Some ident)) \<and>
    ident \<noteq> [] \<and>
    backend (Patch (''/projects/'' @ ident) (formattedData data)) = Inl e \<longrightarrow>
      form_handleSubmit p backend st =
        ([ConsoleLog ''Submitting form with values:'',
          ConsoleLog ''Updating project data:'',
          Request (Patch (''/projects/'' @ ident) (formattedData data)),
          ConsoleError ''Error updating project:'',
          ToastError (case error_message e of
                        None \<Rightarrow> ''Failed to update project''
                      | Some m \<Rightarrow> if m = [] then ''Failed to update project'' else m)],
         st)) \<and>
   (trim (fd_name (ps_formData s)) \<noteq> [] \<and> fd_clientId (ps_formData s) \<noteq> [] \<and>
    createProject (formData.extend (ps_formData s) \<lparr>np_status = NotStarted\<rparr>) = Inl e \<longrightarrow>
      handleSubmit createProject s =
        ([PreventDefault,
          CreateProject (formData.extend (ps_formData s) \<lparr>np_status = NotStarted\<rparr>),
          ConsoleError ''Error creating project:'',
          ToastError ''Failed to create project''],
         s\<lparr>ps_submitting := False\<rparr>)) \<and>
   (checkValidity (form_controls (ps_formData s)) \<and>
    trim (fd_name (ps_formData s)) \<noteq> [] \<and> fd_clientId (ps_formData s) \<noteq> [] \<and>
    createProject (formData.extend (ps_formData s) \<lparr>np_status = NotStarted\<rparr>) = Inl e \<longrightarrow>
      submit_form createProject s =
        ([PreventDefault,
          CreateProject (formData.extend (ps_formData s) \<lparr>np_status = NotStarted\<rparr>),
          ConsoleError ''Error creating project:'',
          ToastError ''Failed to create project''],
         s\<lparr>ps_submitting := False\<rparr>))"
proof -
  have text_of: "\<And>g. or_default (error_message e) g =
      (case error_message e of None \<Rightarrow> g | Some m \<Rightarrow> if m = [] then g else m)"
    by (simp add: or_default_def split: option.splits)
  have create: "createMutation_mutate p backend data =
        [ConsoleLog ''Sending project data:'',
         Request (Post ''/projects'' (formattedData data)),
         ConsoleError ''Error creating project:'',
         ToastError (case error_message e of
                       None \<Rightarrow> ''Failed to create project''
                     | Some m \<Rightarrow> if m = [] then ''Failed to create project'' else m)]"
    if "backend (Post ''/projects'' (formattedData data)) = Inl e"
    using createMutation_mutate_failed [of backend data e p] that by (simp add: text_of)
  have update: "updateMutation_mutate p backend ident data =
        [ConsoleLog ''Updating project data:'',
         Request (Patch (''/projects/'' @ ident) (formattedData data)),
         ConsoleError ''Error updating project:'',
         ToastError (case error_message e of
                       None \<Rightarrow> ''Failed to update project''
                     | Some m \<Rightarrow> if m = [] then ''Failed to update project'' else m)]"
    if "backend (Patch (''/projects/'' @ ident) (formattedData data)) = Inl e"
    using updateMutation_mutate_failed [of backend ident data e p] that by (simp add: text_of)
  have form_create: "form_handleSubmit p backend st =
        (ConsoleLog ''Submitting form with values:'' # createMutation_mutate p backend data, st)"
    if "projectSchema (st_form st) = Inr data" and "\<not> prop_isEditing p \<or> prop_project p = None"
    using that onSubmit_create_mode [of p backend data] by (simp add: form_handleSubmit_def)
  have form_update: "form_handleSubmit p backend st =
        (ConsoleLog ''Submitting form with values:'' #
         updateMutation_mutate p backend ident data, st)"
    if "projectSchema (st_form st) = Inr data" and "prop_isEditing p"
      and "prop_project p = Some proj"
      and "proj_id proj = Some ident \<or> (\<not> truthy (proj_id proj) \<and> proj_oid proj = Some ident)"
      and "ident \<noteq> []"
    using that onSubmit_edit_mode [of p proj ident backend data]
    by (simp add: form_handleSubmit_def)
  have plain: "handleSubmit createProject s =
        ([PreventDefault,
          CreateProject (formData.extend (ps_formData s) \<lparr>np_status = NotStarted\<rparr>),
          ConsoleError ''Error creating project:'',
          ToastError ''Failed to create project''],
         s\<lparr>ps_submitting := False\<rparr>)"
    if "trim (fd_name (ps_formData s)) \<noteq> []" and "fd_clientId (ps_formData s) \<noteq> []"
      and "createProject (formData.extend (ps_formData s) \<lparr>np_status = NotStarted\<rparr>) = Inl e"
    using that by (rule handleSubmit_failed)
  show ?thesis
    using create update form_create form_update plain
    by (simp add: submit_form_def)
qed

theorem failed_write_shows_error_and_keeps_form_witness:
  "createMutation_mutate create_only_props patch_only_backend example_values =
     [ConsoleLog ''Sending project data:'',
      Request (Post ''/projects'' (formattedData example_values)),
      ConsoleError ''Error creating project:'',
      ToastError ''Name already exists''] \<and>
   updateMutation_mutate update_only_props post_only_backend ''p7'' example_values =
     [ConsoleLog ''Updating project data:'',
      Request (Patch ''/projects/p7'' (formattedData example_values)),
      ConsoleError ''Error updating project:'',
      ToastError ''Project not found''] \<and>
   form_handleSubmit create_only_props patch_only_backend example_state =
     ([ConsoleLog ''Submitting form with values:'',
       ConsoleLog ''Sending project data:'',
       Request (Post ''/projects'' (formattedData example_values)),
       ConsoleError ''Error creating project:'',
       ToastError ''Name already exists''],
      example_state) \<and>
   form_handleSubmit update_only_props post_only_backend example_state =
     ([ConsoleLog ''Submitting form with values:'',
       ConsoleLog ''Updating project data:'',
       Request (Patch ''/projects/p7'' (formattedData example_values)),
       ConsoleError ''Error updating project:'',
       ToastError ''Project not found''],
      example_state) \<and>
   handleSubmit rejecting_service one_off_plain_state =
     ([PreventDefault,
       CreateProject (formData.extend (ps_formData one_off_plain_state) \<lparr>np_status = NotStarted\<rparr>),
       ConsoleError ''Error creating project:'',
       ToastError ''Failed to create project''],
      one_off_plain_state) \<and>
   submit_form rejecting_service one_off_plain_state =
     ([PreventDefault,
       CreateProject (formData.extend (ps_formData one_off_plain_state) \<lparr>np_status = NotStarted\<rparr>),
       ConsoleError ''Error creating project:'',
       ToastError ''Failed to create project''],
      one_off_plain_state)"
proof -
  let ?parsed = "example_values\<lparr>fv_teamMemberIds := Some []\<rparr>"
  let ?taken = "ApiError (Some ''Name already exists'')"
  let ?gone = "ApiError (Some ''Project not found'')"
  let ?proj = "example_project\<lparr>proj_id := Some ''p7''\<rparr>"
  have parsed: "projectSchema (st_form example_state) = Inr ?parsed"
    by (simp add: projectSchema_def example_state_def example_values_def)
  have same_body: "formattedData ?parsed = formattedData example_values"
    by (simp add: formattedData_def example_values_def)
  have rejected:
    "patch_only_backend (Post ''/projects'' (formattedData example_values)) = Inl ?taken"
    "post_only_backend (Patch (''/projects/'' @ ''p7'') (formattedData example_values)) =
       Inl ?gone"
    "rejecting_service
       (formData.extend (ps_formData one_off_plain_state) \<lparr>np_status = NotStarted\<rparr>) =
       Inl ?taken"
    by (simp_all add: patch_only_backend_def post_only_backend_def rejecting_service_def)
  have callers:
    "\<not> prop_isEditing create_only_props \<or> prop_project create_only_props = None"
    "prop_isEditing update_only_props" "prop_project update_only_props = Some ?proj"
    "proj_id ?proj = Some ''p7''" "''p7'' \<noteq> []"
    by (simp_all add: create_only_props_def update_only_props_def)
  have filled: "checkValidity (form_controls (ps_formData one_off_plain_state))"
    "trim (fd_name (ps_formData one_off_plain_state)) \<noteq> []"
    "fd_clientId (ps_formData one_off_plain_state) \<noteq> []"
    "one_off_plain_state\<lparr>ps_submitting := False\<rparr> = one_off_plain_state"
    by (simp_all add: one_off_plain_state_def example_plain_state_def example_formData_def
        checkValidity_def form_controls_def valueMissing_def trim_def isWhiteSpace_def)
  from parsed rejected callers filled
    failed_write_shows_error_and_keeps_form
      [where backend = patch_only_backend and data = example_values and e = "?taken"
         and p = create_only_props and s = one_off_plain_state
         and createProject = rejecting_service]
    failed_write_shows_error_and_keeps_form
      [where backend = post_only_backend and data = example_values and e = "?gone"
         and p = update_only_props and ident = "''p7''"]
    failed_write_shows_error_and_keeps_form
      [where backend = patch_only_backend and data = "?parsed" and e = "?taken"
         and p = create_only_props and st = example_state]
    failed_write_shows_error_and_keeps_form
      [where backend = post_only_backend and data = "?parsed" and e = "?gone"
         and p = update_only_props and ident = "''p7''" and st = example_state
         and proj = "?proj"]
  show ?thesis by (simp add: same_body)
qed

section \<open>Failed reads\<close>

lemma clients_queryFn_failed:
  "backend ''/clients'' = Inl e \<Longrightarrow>
   clients_queryFn backend =
     ([Request (Get ''/clients''), ConsoleError ''Error fetching clients:''], FetchedArray [])"
  by (simp add: clients_queryFn_def)

lemma teamMembers_queryFn_failed:
  "backend ''/team-members'' = Inl e \<Longrightarrow>
   teamMembers_queryFn backend =
     ([Request (Get ''/team-members''), ConsoleError ''Error fetching team members:''],
      FetchedArray [])"
  by (simp add: teamMembers_queryFn_def)

lemma templates_queryFn_failed:
  "backend ''/templates'' = Inl e \<Longrightarrow>
   templates_queryFn backend =
     ([Request (Get ''/templates''), ConsoleError ''Error fetching templates:''], FetchedArray [])"
  by (simp add: templates_queryFn_def)

lemma queryFn_own_endpoint:
  "backend ''/clients'' = backend' ''/clients'' \<Longrightarrow>
     clients_queryFn backend = clients_queryFn backend'"
  "backend ''/team-members'' = backend' ''/team-members'' \<Longrightarrow>
     teamMembers_queryFn backend = teamMembers_queryFn backend'"
  "backend ''/templates'' = backend' ''/templates'' \<Longrightarrow>
     templates_queryFn backend = templates_queryFn backend'"
  by (simp_all add: clients_queryFn_def teamMembers_queryFn_def templates_queryFn_def)

text \<open>
  C7. When the fetch of the clients, of the team members or of the templates fails, its
  query function logs the error and returns the empty array instead of rejecting, so the
  component holds the empty list. Each of the three depends on the answer of its own
  endpoint only: two backends that answer alike on one endpoint give that fetch the same
  outcome, whatever they answer on the other two.
\<close>

theorem failed_fetch_degrades_to_empty:
  "(backend ''/clients'' = Inl e \<longrightarrow>
      clients_queryFn backend =
        ([Request (Get ''/clients''), ConsoleError ''Error fetching clients:''],
         FetchedArray []) \<and>
      ref_clients (load_reference_data backend) = []) \<and>
   (backend ''/team-members'' = Inl e \<longrightarrow>
      teamMembers_queryFn backend =
        ([Request (Get ''/team-members''), ConsoleError ''Error fetching team members:''],
         FetchedArray []) \<and>
      ref_teamMembers (load_reference_data backend) = []) \<and>
   (backend ''/templates'' = Inl e \<longrightarrow>
      templates_queryFn backend =
        ([Request (Get ''/templates''), ConsoleError ''Error fetching templates:''],
         FetchedArray []) \<and>
      ref_templates (load_reference_data backend) = []) \<and>
   (backend ''/clients'' = backend' ''/clients'' \<longrightarrow>
      clients_queryFn backend = clients_queryFn backend' \<and>
      ref_clients (load_reference_data backend) = ref_clients (load_reference_data backend')) \<and>
   (backend ''/team-members'' = backend' ''/team-members'' \<longrightarrow>
      teamMembers_queryFn backend = teamMembers_queryFn backend' \<and>
      ref_teamMembers (load_reference_data backend) =
        ref_teamMembers (load_reference_data backend')) \<and>
   (backend ''/templates'' = backend' ''/templates'' \<longrightarrow>
      templates_queryFn backend = templates_queryFn backend' \<and>
      ref_templates (load_reference_data backend) =
        ref_templates (load_reference_data backend'))"
  using clients_queryFn_failed [of backend e] teamMembers_queryFn_failed [of backend e]
    templates_queryFn_failed [of backend e] queryFn_own_endpoint [of backend backend']
  by (simp add: load_reference_data_def ensure_array_def)

theorem failed_fetch_degrades_to_empty_witness:
  "teamMembers_queryFn partial_backend =
     ([Request (Get ''/team-members''), ConsoleError ''Error fetching team members:''],
      FetchedArray []) \<and>
   ref_teamMembers (load_reference_data partial_backend) = [] \<and>
   ref_clients (load_reference_data partial_backend) =
     [\<lparr>ent_oid = Some ''c1'', ent_id = None, ent_name = ''Acme''\<rparr>] \<and>
   clients_queryFn all_failing =
     ([Request (Get ''/clients''), ConsoleError ''Error fetching clients:''], FetchedArray []) \<and>
   templates_queryFn all_failing =
     ([Request (Get ''/templates''), ConsoleError ''Error fetching templates:''],
      FetchedArray []) \<and>
   teamMembers_queryFn all_failing = teamMembers_queryFn partial_backend"
proof -
  have c: "ref_clients (load_reference_data partial_backend) =
     [\<lparr>ent_oid = Some ''c1'', ent_id = None, ent_name = ''Acme''\<rparr>]"
    by (simp add: load_reference_data_def clients_queryFn_def partial_backend_def
        data_or_empty_def ensure_array_def)
  have a: "partial_backend ''/team-members'' = Inl (ApiError None)"
    "all_failing ''/clients'' = Inl (ApiError None)"
    "all_failing ''/templates'' = Inl (ApiError None)"
    "all_failing ''/team-members'' = partial_backend ''/team-members''"
    by (simp_all add: partial_backend_def all_failing_def)
  from failed_fetch_degrades_to_empty [of partial_backend "ApiError None" partial_backend]
    failed_fetch_degrades_to_empty [of all_failing "ApiError None" partial_backend]
    a c
  show ?thesis by simp
qed

section \<open>Default values in edit mode\<close>

text \<open>
  C8. In edit mode with a project supplied, \<open>getDefaultValues\<close> takes every field from
  the project and falls back to the default where the project has none: the status to
  \<^verbatim>\<open>'Not Started'\<close>, the assignee to \<^verbatim>\<open>'none'\<close>, the team members to the empty list,
  the recurrence flag to false (it is true when \<^verbatim>\<open>repeating\<close> or \<^verbatim>\<open>isRecurring\<close> is),
  the description and the template to the empty string, and the start date to the due
  date and then to the current date. The fallback is taken by \<^verbatim>\<open>||\<close> and \<^verbatim>\<open>?:\<close>, so
  an empty string counts as a missing assignee or date.
\<close>

theorem edit_mode_default_values:
  assumes "prop_isEditing p" and "prop_project p = Some proj"
  shows "getDefaultValues now parse p =
     \<lparr>fv_name = proj_name proj,
      fv_description = Some (case proj_description proj of Some d \<Rightarrow> d | None \<Rightarrow> ''''),
      fv_clientId = proj_clientId proj,
      fv_assigneeId =
        Some (case proj_assigneeId proj of
                Some a \<Rightarrow> if a = [] then ''none'' else a
              | None \<Rightarrow> ''none''),
      fv_teamMemberIds = Some (case proj_teamMemberIds proj of Some ids \<Rightarrow> ids | None \<Rightarrow> []),
      fv_isRecurring = Some (proj_repeating proj = Some True \<or> proj_isRecurring proj = Some True),
      fv_startDate =
        Some (let fallback =
                    (case proj_dueDate proj of
                       Some (DateObject d) \<Rightarrow> d
                     | Some (DateString s) \<Rightarrow> if s = [] then now else parse s
                     | None \<Rightarrow> now)
              in case proj_startDate proj of
                   Some (DateObject d) \<Rightarrow> d
                 | Some (DateString s) \<Rightarrow> if s = [] then fallback else parse s
                 | None \<Rightarrow> fallback),
      fv_templateId = Some (case proj_templateId proj of Some t \<Rightarrow> t | None \<Rightarrow> ''''),
      fv_status = Some (case proj_status proj of Some s \<Rightarrow> s | None \<Rightarrow> NotStarted)\<rparr>"
proof -
  have strings: "\<And>x. or_default x '''' = (case x of Some d \<Rightarrow> d | None \<Rightarrow> '''')"
    by (simp add: or_default_def split: option.splits)
  have assignee: "or_default (proj_assigneeId proj) ''none'' =
      (case proj_assigneeId proj of Some a \<Rightarrow> if a = [] then ''none'' else a | None \<Rightarrow> ''none'')"
    by (simp add: or_default_def split: option.splits)
  have flags: "or_bool (proj_repeating proj)
        (or_bool (proj_isRecurring proj) (or_bool (Some False) False)) =
      (proj_repeating proj = Some True \<or> proj_isRecurring proj = Some True)"
    by (auto simp: or_bool_def split: option.splits bool.splits)
  have dates: "\<And>x d. date_or parse x d =
      (case x of Some (DateObject t) \<Rightarrow> t
       | Some (DateString s) \<Rightarrow> if s = [] then d else parse s
       | None \<Rightarrow> d)"
    by (simp add: date_or_def truthy_date_def new_Date_def split: option.splits date_field.splits)
  show ?thesis
    using assms
    by (simp add: getDefaultValues_def defaultValues_def strings assignee flags dates Let_def)
qed

theorem edit_mode_default_values_witness:
  "getDefaultValues (Date 5) (\<lambda>s. Date 7) editing_props =
     \<lparr>fv_name = ''Audit'',
      fv_description = Some '''',
      fv_clientId = ''c1'',
      fv_assigneeId = Some ''none'',
      fv_teamMemberIds = Some [],
      fv_isRecurring = Some False,
      fv_startDate = Some (Date 7),
      fv_templateId = Some '''',
      fv_status = Some NotStarted\<rparr>"
proof -
  have h: "prop_isEditing editing_props" "prop_project editing_props = Some example_project"
    by (simp_all add: editing_props_def)
  from edit_mode_default_values [OF h, of "Date 5" "\<lambda>s. Date 7"]
  show ?thesis by (simp add: example_project_def)
qed

section \<open>Recurrence without a frequency\<close>

lemma frequency_control_missing:
  assumes "fd_repeating fd" and "fd_frequency fd = None \<or> fd_frequency fd = Some []"
  shows "\<not> checkValidity (form_controls fd)"
  using assms by (auto simp: checkValidity_def form_controls_def valueMissing_def)

text \<open>
  The handler of the plain modal does not look at the frequency: called on a repeating
  project without one, it creates the project. The requirement is the \<^verbatim>\<open>required\<close>
  attribute of the frequency selector, which the browser checks before the handler runs.
  The schema-validated modal has no frequency field.
\<close>

lemma handleSubmit_does_not_read_frequency:
  "fst (handleSubmit accepting_service example_plain_state) =
     [PreventDefault,
      CreateProject (formData.extend example_formData \<lparr>np_status = NotStarted\<rparr>),
      ToastSuccess ''Project created successfully'', OnClose]"
  by (simp add: handleSubmit_def Let_def accepting_service_def example_plain_state_def
      example_formData_def trim_def isWhiteSpace_def)

text \<open>
  C3. In the plain modal, submitting the form with the recurrence flag set and no
  frequency chosen (none yet, or the empty placeholder option) is rejected by the
  validation of the required frequency selector: the submit handler does not run, no
  network call is issued and the state is unchanged.
\<close>

theorem repeating_without_frequency_rejected:
  assumes "fd_repeating (ps_formData s)"
    and "fd_frequency (ps_formData s) = None \<or> fd_frequency (ps_formData s) = Some []"
  shows "submit_form createProject s = ([], s) \<and>
         network_calls (fst (submit_form createProject s)) = []"
  using frequency_control_missing [OF assms]
  by (simp add: submit_form_def network_calls_simps)

theorem repeating_without_frequency_rejected_witness:
  "submit_form accepting_service example_plain_state = ([], example_plain_state) \<and>
   network_calls (fst (submit_form accepting_service example_plain_state)) = []"
proof -
  have h: "fd_repeating (ps_formData example_plain_state)"
    "fd_frequency (ps_formData example_plain_state) = None \<or>
     fd_frequency (ps_formData example_plain_state) = Some []"
    by (simp_all add: example_plain_state_def example_formData_def)
  from repeating_without_frequency_rejected [OF h, of accepting_service]
  show ?thesis by (simp add: network_calls_simps)
qed

section \<open>Selecting team members\<close>

lemma checkbox_click_first:
  assumes "member_key a \<noteq> []"
  shows "checkbox_click a (Some []) = Some [member_key a]"
  using assms by (simp add: checkbox_click_def teamMemberIds_onChange_def isSelected_def Let_def)

lemma checkbox_click_second:
  assumes "member_key c \<noteq> []" and "member_key a \<noteq> member_key c"
  shows "checkbox_click c (Some [member_key a]) = Some [member_key a, member_key c]"
  using assms by (simp add: checkbox_click_def teamMemberIds_onChange_def isSelected_def Let_def)

text \<open>
  A click in the selector of the plain modal, over three team members with the
  selection \<open>sel\<close>: the options come back in the order of the team members, the clicked
  one flipped.
\<close>

lemma select_click_three:
  assumes "fd_teamMemberIds fd = sel"
  shows "fd_teamMemberIds (select_click [ma, mb, mc] 0 fd) =
           (if m_id ma \<in> set sel then [] else [m_id ma]) @
           (if m_id mb \<in> set sel then [m_id mb] else []) @
           (if m_id mc \<in> set sel then [m_id mc] else [])"
    and "fd_teamMemberIds (select_click [ma, mb, mc] 2 fd) =
           (if m_id ma \<in> set sel then [m_id ma] else []) @
           (if m_id mb \<in> set sel then [m_id mb] else []) @
           (if m_id mc \<in> set sel then [] else [m_id mc])"
  using assms
  by (simp_all add: select_click_def handleTeamMemberSelection_def toggle_option_def
      teamMemberIds_options_def selectedOptions_def numeral_2_eq_2)

text \<open>
  The checkboxes of the schema-validated modal append: ticking C and then A gives the
  list C, A, not A, C.
\<close>

theorem checkbox_selection_order_counterexample:
  "checkbox_click memberC (checkbox_click memberA (Some [])) = Some [''A'', ''C''] \<and>
   checkbox_click memberA (checkbox_click memberC (Some [])) = Some [''C'', ''A''] \<and>
   checkbox_click memberA (checkbox_click memberC (Some [])) \<noteq> Some [''A'', ''C'']"
  by (simp add: checkbox_click_def teamMemberIds_onChange_def isSelected_def member_key_def
      js_or_def truthy_def or_default_def memberA_def memberC_def Let_def)

text \<open>
  C2, as amended. From an empty selection over the members A, B, C, selecting A and C
  with no deselection yields a list that holds exactly A and C, each once. The
  checkboxes of the schema-validated modal list them in the order of selection: A, C
  when A is ticked first and C, A when C is ticked first. The selector of the plain
  modal, where A is the first option and C the third, lists them in the order of the
  options, A, C, whichever is clicked first.
\<close>

theorem selecting_two_team_members:
  assumes "member_key a \<noteq> []" and "member_key c \<noteq> []" and "member_key a \<noteq> member_key c"
    and "map m_id ms = [ia, ib, ic]" and "distinct [ia, ib, ic]"
    and "fd_teamMemberIds fd = []"
  shows "checkbox_click c (checkbox_click a (Some [])) = Some [member_key a, member_key c] \<and>
         checkbox_click a (checkbox_click c (Some [])) = Some [member_key c, member_key a] \<and>
         fd_teamMemberIds (select_click ms 2 (select_click ms 0 fd)) = [ia, ic] \<and>
         fd_teamMemberIds (select_click ms 0 (select_click ms 2 fd)) = [ia, ic]"
proof -
  have boxes_ac: "checkbox_click c (checkbox_click a (Some [])) = Some [member_key a, member_key c]"
    using assms(1,2,3) by (simp add: checkbox_click_first checkbox_click_second)
  have boxes_ca: "checkbox_click a (checkbox_click c (Some [])) = Some [member_key c, member_key a]"
    using assms(1,2,3) checkbox_click_second [of a c]
    by (simp add: checkbox_click_first)
  obtain ma mb mc where ms: "ms = [ma, mb, mc]"
    and ids: "m_id ma = ia" "m_id mb = ib" "m_id mc = ic"
    using assms(4) by auto
  have first_a: "fd_teamMemberIds (select_click ms 0 fd) = [ia]"
    using select_click_three(1) [OF assms(6), of ma mb mc] by (simp add: ms ids)
  have first_c: "fd_teamMemberIds (select_click ms 2 fd) = [ic]"
    using select_click_three(2) [OF assms(6), of ma mb mc] by (simp add: ms ids)
  have list_ac: "fd_teamMemberIds (select_click ms 2 (select_click ms 0 fd)) = [ia, ic]"
    using select_click_three(2) [OF first_a [unfolded ms], of ma mb mc] assms(5)
    by (auto simp: ms ids)
  have list_ca: "fd_teamMemberIds (select_click ms 0 (select_click ms 2 fd)) = [ia, ic]"
    using select_click_three(1) [OF first_c [unfolded ms], of ma mb mc] assms(5)
    by (auto simp: ms ids)
  show ?thesis
    using boxes_ac boxes_ca list_ac list_ca by simp
qed

theorem selecting_two_team_members_witness:
  "checkbox_click memberC (checkbox_click memberA (Some [])) = Some [''A'', ''C''] \<and>
   checkbox_click memberA (checkbox_click memberC (Some [])) = Some [''C'', ''A''] \<and>
   fd_teamMemberIds (select_click plain_members 2
      (select_click plain_members 0 example_formData)) = [''A'', ''C''] \<and>
   fd_teamMemberIds (select_click plain_members 0
      (select_click plain_members 2 example_formData)) = [''A'', ''C'']"
proof -
  have keys: "member_key memberA = ''A''" "member_key memberC = ''C''"
    by (simp_all add: member_key_def js_or_def truthy_def or_default_def memberA_def memberC_def)
  have h: "member_key memberA \<noteq> []" "member_key memberC \<noteq> []"
    "member_key memberA \<noteq> member_key memberC"
    "map m_id plain_members = [''A'', ''B'', ''C'']" "distinct [''A'', ''B'', ''C'']"
    "fd_teamMemberIds example_formData = []"
    by (simp_all add: keys plain_members_def example_formData_def)
  from selecting_two_team_members [OF h]
  show ?thesis by (simp add: keys)
qed

section \<open>Clicks on a pagination link\<close>

text \<open>
  A disabled link whose caller passed a click handler: the click runs the caller's
  handler, and nothing else.
\<close>

theorem disabled_link_runs_caller_handler_counterexample:
  "lp_disabled disabled_link_with_handler = Some True \<and>
   click disabled_link_with_handler = [PropsOnClick] \<and>
   PropsOnClick \<in> set (click disabled_link_with_handler)"
  by (simp add: click_def PaginationLink_def disabled_link_with_handler_def)

text \<open>
  C9, as amended. The component is a function of its properties and holds no state.
  The \<^verbatim>\<open>disabled\<close> flag reaches the rendered anchor in its \<^verbatim>\<open>aria-disabled\<close>
  attribute, in its class list and in its click handling only. When the caller passes
  no \<^verbatim>\<open>onClick\<close> property at all, a click on a disabled link prevents the default
  navigation and does nothing else, and a click on a link that is not disabled does
  nothing. A click handler the caller passes is called on every click, whether the
  link is disabled or not. Nothing is said of the default navigation when an
  \<^verbatim>\<open>onClick\<close> property is passed, be it a handler or \<^verbatim>\<open>undefined\<close>.
\<close>

theorem pagination_link_disabled:
  "(lp_onClick p = NotPassed \<longrightarrow>
      click p = (if lp_disabled p = Some True then [EventPreventDefault] else [])) \<and>
   (lp_onClick p = PassedHandler \<longrightarrow> PropsOnClick \<in> set (click p)) \<and>
   a_aria_current (PaginationLink (p\<lparr>lp_disabled := d\<rparr>)) = a_aria_current (PaginationLink p) \<and>
   a_aria_disabled (PaginationLink (p\<lparr>lp_disabled := d\<rparr>)) = d \<and>
   a_className (PaginationLink (p\<lparr>lp_disabled := d\<rparr>)) =
     [if lp_isActive p = Some True then ''outline'' else ''ghost'',
      case lp_size p of None \<Rightarrow> ''icon'' | Some s \<Rightarrow> s] @
     (if d = Some True then [''pointer-events-none opacity-50''] else []) @ lp_className p"
  by (simp add: click_def PaginationLink_def inline_onClick_def)

theorem pagination_link_disabled_witness:
  "click (disabled_link_with_handler\<lparr>lp_onClick := NotPassed\<rparr>) = [EventPreventDefault] \<and>
   PropsOnClick \<in> set (click disabled_link_with_handler)"
  using pagination_link_disabled [of "disabled_link_with_handler\<lparr>lp_onClick := NotPassed\<rparr>" None]
    pagination_link_disabled [of disabled_link_with_handler None]
  by (simp add: disabled_link_with_handler_def)

end
